theory Spec2Isabelle
  imports Complex_Main "HOL-Library.Sublist"
begin

section \<open>Values of the workflows\<close>

text \<open>
  The two workflows of the repository (\<open>weather-workflow\<close> and \<open>web-search-workflow\<close>) are
  embedded step by step. Every \<open>execute\<close> function becomes a function that takes the
  outside world, the step's \<open>inputData\<close> and the trace of effects so far, and returns either
  the thrown error or the step's result, together with the extended trace.

  A JavaScript \<open>number\<close> read from a JSON response is a finite double; the steps only compare
  such numbers (\<open>Math.max\<close>, \<open>Math.min\<close>), which involves no rounding, so a reading is a
  \<open>real\<close>. The results of \<open>Math.max\<close> and \<open>Math.min\<close> over a spread array can also be
  \<open>-Infinity\<close> and \<open>Infinity\<close> (the empty array), hence the type \<open>number\<close> of the computed
  fields.
\<close>

datatype number = NegInfinity | Finite real | PosInfinity

text \<open>A thrown \<open>new Error(message)\<close>.\<close>

datatype error = Error string

text \<open>An element of \<open>geocodingData.results\<close>.\<close>

record candidate =
  latitude :: real
  longitude :: real
  name :: string

text \<open>The geocoding response; \<open>results\<close> may be missing (\<open>results?.[0]\<close>).\<close>

record geocoding_data =
  results :: "candidate list option"

record current_conditions =
  time :: string
  precipitation :: real
  weathercode :: int

record hourly_series =
  precipitation_probability :: "real list"
  temperature_2m :: "real list"

record weather_data =
  current :: current_conditions
  hourly :: hourly_series

text \<open>\<open>forecastSchema\<close>.\<close>

record forecast =
  date :: string
  maxTemp :: number
  minTemp :: number
  precipitationChance :: number
  condition :: string
  location :: string

section \<open>The weather-code table\<close>

text \<open>The object literal \<open>conditions\<close> of \<open>getWeatherCondition\<close>, in source order.\<close>

definition conditions :: "(int \<times> string) list" where
  "conditions =
    [(0, ''Clear sky''),
     (1, ''Mainly clear''),
     (2, ''Partly cloudy''),
     (3, ''Overcast''),
     (45, ''Foggy''),
     (48, ''Depositing rime fog''),
     (51, ''Light drizzle''),
     (53, ''Moderate drizzle''),
     (55, ''Dense drizzle''),
     (61, ''Slight rain''),
     (63, ''Moderate rain''),
     (65, ''Heavy rain''),
     (71, ''Slight snow fall''),
     (73, ''Moderate snow fall''),
     (75, ''Heavy snow fall''),
     (95, ''Thunderstorm'')]"

text \<open>
  \<open>conditions[code] || 'Unknown'\<close>: a missing key reads as \<open>undefined\<close>, and \<open>||\<close> takes
  its right operand when the left one is falsy (\<open>undefined\<close> or the empty string).
\<close>

definition getWeatherCondition :: "int \<Rightarrow> string" where
  "getWeatherCondition code =
    (case map_of conditions code of
       None \<Rightarrow> ''Unknown''
     | Some label \<Rightarrow> if label = [] then ''Unknown'' else label)"

section \<open>The outside world and the trace of effects\<close>

text \<open>
  A \<open>textStream\<close>: the fragments delivered, in order, followed by the end-of-stream signal
  (\<open>None\<close>) or by a failure of the iterator.
\<close>

type_synonym text_stream = "string list \<times> error option"

text \<open>
  Everything a step reads from outside: the two HTTP services (a \<open>fetch\<close> followed by
  \<open>json()\<close>, which may reject), the clock read by \<open>new Date().toISOString()\<close>,
  \<open>JSON.stringify(forecast, null, 2)\<close>, and the calls of the two agents.
\<close>

record world =
  geocoding_api :: "string \<Rightarrow> error + geocoding_data"
  forecast_api :: "real \<Rightarrow> real \<Rightarrow> error + weather_data"
  clock :: string
  stringify :: "forecast \<Rightarrow> string"
  agent_stream :: "string \<Rightarrow> error + text_stream"
  webSearchAgent_generate :: "string \<Rightarrow> error + string"
  webSearchAgent_stream :: "string \<Rightarrow> error + text_stream"

text \<open>
  The effects a run performs, recorded in order. \<open>StepInvoked\<close> is written by the runner,
  the others by the steps: the two \<open>fetch\<close> calls (by city, and by coordinates), the
  agent calls (by user message), and the console output.
\<close>

datatype event =
    StepInvoked string
  | GeocodingFetch string
  | ForecastFetch real real
  | AgentStream string
  | WebSearchGenerate string
  | WebSearchStream string
  | StdoutWrite string
  | ConsoleLog string

type_synonym 'a outcome = "(error + 'a) \<times> event list"

section \<open>Step \<open>fetch-weather\<close>\<close>

record city_input =
  city :: string

text \<open>
  \<open>Math.max(...xs)\<close> and \<open>Math.min(...xs)\<close>: the running value starts at \<open>-Infinity\<close>
  (\<open>Infinity\<close>) and is replaced by every argument that is greater (smaller).
\<close>

fun Math_max_step :: "number \<Rightarrow> real \<Rightarrow> number" where
  "Math_max_step NegInfinity x = Finite x"
| "Math_max_step (Finite highest) x = Finite (if x > highest then x else highest)"
| "Math_max_step PosInfinity x = PosInfinity"

definition Math_max :: "real list \<Rightarrow> number" where
  "Math_max xs = foldl Math_max_step NegInfinity xs"

fun Math_min_step :: "number \<Rightarrow> real \<Rightarrow> number" where
  "Math_min_step PosInfinity x = Finite x"
| "Math_min_step (Finite lowest) x = Finite (if x < lowest then x else lowest)"
| "Math_min_step NegInfinity x = NegInfinity"

definition Math_min :: "real list \<Rightarrow> number" where
  "Math_min xs = foldl Math_min_step PosInfinity xs"

text \<open>The thrown \<open>new Error(`Location '${inputData.city}' not found`)\<close>.\<close>

definition location_not_found :: "string \<Rightarrow> error" where
  "location_not_found c = Error (''Location '' @ [CHR 0x27] @ c @ [CHR 0x27] @ '' not found'')"

text \<open>\<open>geocodingData.results?.[0]\<close>: \<open>undefined\<close> when \<open>results\<close> is missing or empty.\<close>

definition first_result :: "geocoding_data \<Rightarrow> candidate option" where
  "first_result geocodingData =
    (case results geocodingData of
       None \<Rightarrow> None
     | Some [] \<Rightarrow> None
     | Some (c # cs) \<Rightarrow> Some c)"

text \<open>The object literal \<open>forecast\<close> of the step (lines 125 to 132).\<close>

definition build_forecast :: "world \<Rightarrow> city_input \<Rightarrow> weather_data \<Rightarrow> forecast" where
  "build_forecast w inputData data =
    \<lparr> date = clock w,
      maxTemp = Math_max (temperature_2m (hourly data)),
      minTemp = Math_min (temperature_2m (hourly data)),
      precipitationChance =
        Finite (foldl (\<lambda>acc curr. max acc curr) 0 (precipitation_probability (hourly data))),
      condition = getWeatherCondition (weathercode (current data)),
      location = city inputData \<rparr>"

definition fetchWeather :: "world \<Rightarrow> city_input option \<Rightarrow> event list \<Rightarrow> forecast outcome" where
  "fetchWeather w inputData tr =
    (case inputData of
       None \<Rightarrow> (Inl (Error ''Input data not found''), tr)
     | Some inp \<Rightarrow>
        (case geocoding_api w (city inp) of
           Inl e \<Rightarrow> (Inl e, tr @ [GeocodingFetch (city inp)])
         | Inr geocodingData \<Rightarrow>
            (case first_result geocodingData of
               None \<Rightarrow> (Inl (location_not_found (city inp)), tr @ [GeocodingFetch (city inp)])
             | Some c \<Rightarrow>
                (case forecast_api w (latitude c) (longitude c) of
                   Inl e \<Rightarrow>
                     (Inl e,
                      tr @ [GeocodingFetch (city inp), ForecastFetch (latitude c) (longitude c)])
                 | Inr data \<Rightarrow>
                     (Inr (build_forecast w inp data),
                      tr @ [GeocodingFetch (city inp),
                            ForecastFetch (latitude c) (longitude c)])))))"

section \<open>Steps \<open>plan-activities\<close> and \<open>plan-web-search-activities\<close>\<close>

record plan =
  activities :: string

text \<open>
  The loop \<open>for await (const chunk of response.textStream)\<close>: every fragment is written to
  the standard output and appended to \<open>activitiesText\<close>.
\<close>

fun accumulate :: "string list \<Rightarrow> string \<Rightarrow> event list \<Rightarrow> string \<times> event list" where
  "accumulate [] activitiesText tr = (activitiesText, tr)"
| "accumulate (chunk # rest) activitiesText tr =
     accumulate rest (activitiesText @ chunk) (tr @ [StdoutWrite chunk])"

definition read_textStream :: "text_stream \<Rightarrow> event list \<Rightarrow> plan outcome" where
  "read_textStream s tr =
    (case accumulate (fst s) [] tr of
       (activitiesText, tr') \<Rightarrow>
         (case snd s of
            None \<Rightarrow> (Inr \<lparr> activities = activitiesText \<rparr>, tr')
          | Some e \<Rightarrow> (Inl e, tr')))"

definition weather_prompt :: "world \<Rightarrow> forecast \<Rightarrow> string" where
  "weather_prompt w fc =
    ''Based on the following weather forecast for '' @ location fc
      @ '', suggest appropriate activities:'' @ [CHR 0x0A]
      @ ''      '' @ stringify w fc @ [CHR 0x0A]
      @ ''      ''"

definition planActivities :: "world \<Rightarrow> forecast option \<Rightarrow> event list \<Rightarrow> plan outcome" where
  "planActivities w inputData tr =
    (case inputData of
       None \<Rightarrow> (Inl (Error ''Forecast data not found''), tr)
     | Some fc \<Rightarrow>
        (case agent_stream w (weather_prompt w fc) of
           Inl e \<Rightarrow> (Inl e, tr @ [AgentStream (weather_prompt w fc)])
         | Inr response \<Rightarrow> read_textStream response (tr @ [AgentStream (weather_prompt w fc)])))"

section \<open>Step \<open>web-search-info\<close>\<close>

record search_input =
  query :: string
  focus :: "string option"

text \<open>The step's output: the input's two fields and \<open>searchResults\<close>.\<close>

record search_info = search_input +
  searchResults :: string

text \<open>
  \<open>inputData.focus ? ... : ...\<close>: the first template when \<open>focus\<close> is truthy (present and not
  the empty string), the second one otherwise.
\<close>

definition searchQuery :: "search_input \<Rightarrow> string" where
  "searchQuery inputData =
    (case focus inputData of
       None \<Rightarrow> query inputData @ '' current activities attractions events what to do''
     | Some f \<Rightarrow>
        if f \<noteq> []
        then query inputData @ '' '' @ f @ '' current information activities attractions events''
        else query inputData @ '' current activities attractions events what to do'')"

text \<open>The user message of the search call (a template over three lines).\<close>

definition search_content :: "string \<Rightarrow> string" where
  "search_content q =
    ''Search for current information about: '' @ q @ [CHR 0x0A]
      @ ''        '' @ [CHR 0x0A]
      @ ''Please use web search to find the most up-to-date information and provide a comprehensive summary of what you discover.''"

text \<open>
  The two console messages start with an emoji, written here as its UTF-8 bytes.
\<close>

definition searching_message :: "string \<Rightarrow> string" where
  "searching_message q = [CHR 0xF0, CHR 0x9F, CHR 0x94, CHR 0x8D] @ '' Searching for: '' @ q"

definition planning_message :: "string \<Rightarrow> string" where
  "planning_message q = [CHR 0xF0, CHR 0x9F, CHR 0x8E, CHR 0xAF] @ '' Planning activities for: '' @ q"

definition webSearchInfo :: "world \<Rightarrow> search_input option \<Rightarrow> event list \<Rightarrow> search_info outcome" where
  "webSearchInfo w inputData tr =
    (case inputData of
       None \<Rightarrow> (Inl (Error ''Input data not found''), tr)
     | Some inp \<Rightarrow>
        (case webSearchAgent_generate w (search_content (searchQuery inp)) of
           Inl e \<Rightarrow>
             (Inl e,
              tr @ [ConsoleLog (searching_message (searchQuery inp)),
                    WebSearchGenerate (search_content (searchQuery inp))])
         | Inr text \<Rightarrow>
             (Inr \<lparr> query = query inp, focus = focus inp, searchResults = text \<rparr>,
              tr @ [ConsoleLog (searching_message (searchQuery inp)),
                    WebSearchGenerate (search_content (searchQuery inp))])))"

definition web_search_prompt :: "search_info \<Rightarrow> string" where
  "web_search_prompt inputData =
    ''Based on the web search findings below, create a detailed activity plan:'' @ [CHR 0x0A]
      @ [CHR 0x0A]
      @ searchResults inputData @ [CHR 0x0A]
      @ [CHR 0x0A]
      @ ''Please create a comprehensive activity plan using the structured format in your instructions. Make sure to incorporate the specific, current information you found through web search.''"

definition planWebSearchActivities ::
  "world \<Rightarrow> search_info option \<Rightarrow> event list \<Rightarrow> plan outcome" where
  "planWebSearchActivities w inputData tr =
    (case inputData of
       None \<Rightarrow> (Inl (Error ''Search results not found''), tr)
     | Some inp \<Rightarrow>
        (case webSearchAgent_stream w (web_search_prompt inp) of
           Inl e \<Rightarrow>
             (Inl e,
              tr @ [ConsoleLog (planning_message (query inp)),
                    WebSearchStream (web_search_prompt inp)])
         | Inr response \<Rightarrow>
             read_textStream response
               (tr @ [ConsoleLog (planning_message (query inp)),
                      WebSearchStream (web_search_prompt inp)])))"

section \<open>The workflows\<close>

text \<open>
  Modelled from the spec: the pipeline runner (\<open>createWorkflow\<close>, \<open>.then\<close> and \<open>commit\<close>
  come from the workflow library, whose code is not part of the repository's sources).
  Following the spec's section on the runner, the steps are invoked in declared order,
  each with the previous step's result as its \<open>inputData\<close>; the first failing step aborts
  the run, no later step is invoked, and the caller receives only the error. The shape
  contracts of the steps are the types of the embedding, so a value that reaches a step
  conforms to its contract. The runner records each invocation of a step by its identifier.
\<close>

definition run_step ::
  "string \<Rightarrow> ('a option \<Rightarrow> event list \<Rightarrow> 'b outcome) \<Rightarrow> 'a \<Rightarrow> event list \<Rightarrow> 'b outcome" where
  "run_step step_id execute input tr = execute (Some input) (tr @ [StepInvoked step_id])"

text \<open>
  Modelled from the spec: the sequencing of two steps by \<open>.then\<close>. The second step
  runs on the first one's result; an error of the first one is the result of the run.
\<close>

definition then_step ::
  "('a \<Rightarrow> event list \<Rightarrow> 'b outcome) \<Rightarrow> ('b \<Rightarrow> event list \<Rightarrow> 'c outcome) \<Rightarrow>
   'a \<Rightarrow> event list \<Rightarrow> 'c outcome" where
  "then_step first second input tr =
    (case first input tr of
       (Inl e, tr') \<Rightarrow> (Inl e, tr')
     | (Inr v, tr') \<Rightarrow> second v tr')"

text \<open>\<open>createWorkflow(...).then(fetchWeather).then(planActivities)\<close>.\<close>

definition weatherWorkflow :: "world \<Rightarrow> city_input \<Rightarrow> event list \<Rightarrow> plan outcome" where
  "weatherWorkflow w =
    then_step (run_step ''fetch-weather'' (fetchWeather w))
              (run_step ''plan-activities'' (planActivities w))"

text \<open>\<open>createWorkflow(...).then(webSearchInfo).then(planWebSearchActivities)\<close>.\<close>

definition webSearchWorkflow :: "world \<Rightarrow> search_input \<Rightarrow> event list \<Rightarrow> plan outcome" where
  "webSearchWorkflow w =
    then_step (run_step ''web-search-info'' (webSearchInfo w))
              (run_step ''plan-web-search-activities'' (planWebSearchActivities w))"

section \<open>Sample data\<close>

text \<open>
  A concrete outside world for instantiating the theorems below: the geocoding lookup
  answers every city with the given candidates, the weather provider answers with the
  given provider time and hourly series, and the agents answer with fixed texts.
\<close>

definition paris :: candidate where
  "paris = \<lparr> latitude = 48.85, longitude = 2.35, name = ''Paris'' \<rparr>"

definition sample_weather :: "string \<Rightarrow> real list \<Rightarrow> real list \<Rightarrow> weather_data" where
  "sample_weather t P T =
    \<lparr> current = \<lparr> time = t, precipitation = 0, weathercode = 61 \<rparr>,
      hourly = \<lparr> precipitation_probability = P, temperature_2m = T \<rparr> \<rparr>"

definition sample_world :: "candidate list option \<Rightarrow> weather_data \<Rightarrow> world" where
  "sample_world found d =
    \<lparr> geocoding_api = (\<lambda>c. Inr \<lparr> results = found \<rparr>),
      forecast_api = (\<lambda>lat lon. Inr d),
      clock = ''2025-06-01T12:00:00.000Z'',
      stringify = (\<lambda>fc. ''{}''),
      agent_stream = (\<lambda>prompt. Inr ([''Hel'', ''lo, '', ''world''], None)),
      webSearchAgent_generate = (\<lambda>content. Inr ''findings''),
      webSearchAgent_stream = (\<lambda>prompt. Inr ([''A '', ''day '', ''plan''], None)) \<rparr>"

definition sample_forecast :: forecast where
  "sample_forecast =
    \<lparr> date = ''2025-06-01T12:00:00.000Z'',
      maxTemp = Finite 25,
      minTemp = Finite 12,
      precipitationChance = Finite 90,
      condition = ''Slight rain'',
      location = ''Paris'' \<rparr>"

text \<open>The events that are calls of a text-generation agent.\<close>

fun generation_call :: "event \<Rightarrow> bool" where
  "generation_call (AgentStream p) = True"
| "generation_call (WebSearchGenerate p) = True"
| "generation_call (WebSearchStream p) = True"
| "generation_call ev = False"

section \<open>Auxiliary facts\<close>

lemma foldl_max_Max:
  "foldl (\<lambda>acc curr. max acc curr) (a::real) xs = Max (insert a (set xs))"
proof (induction xs arbitrary: a)
  case Nil
  show ?case by simp
next
  case (Cons x xs)
  have "Max (insert (max a x) (set xs)) = Max (insert a (insert x (set xs)))"
    by (cases "set xs = {}") (auto simp: max.assoc max.commute)
  with Cons show ?case by simp
qed

lemma Math_max_step_Finite:
  "foldl Math_max_step (Finite h) xs = Finite (Max (insert h (set xs)))"
proof (induction xs arbitrary: h)
  case Nil
  show ?case by simp
next
  case (Cons x xs)
  have "Max (insert (if h < x then x else h) (set xs)) = Max (insert h (insert x (set xs)))"
    by (cases "set xs = {}") (auto simp: max_def)
  with Cons show ?case by simp
qed

lemma Math_min_step_Finite:
  "foldl Math_min_step (Finite l) xs = Finite (Min (insert l (set xs)))"
proof (induction xs arbitrary: l)
  case Nil
  show ?case by simp
next
  case (Cons x xs)
  have "Min (insert (if x < l then x else l) (set xs)) = Min (insert l (insert x (set xs)))"
    by (cases "set xs = {}") (auto simp: min_def)
  with Cons show ?case by simp
qed

lemma Math_max_nonempty: "xs \<noteq> [] \<Longrightarrow> Math_max xs = Finite (Max (set xs))"
  by (cases xs) (simp_all add: Math_max_def Math_max_step_Finite)

lemma Math_min_nonempty: "xs \<noteq> [] \<Longrightarrow> Math_min xs = Finite (Min (set xs))"
  by (cases xs) (simp_all add: Math_min_def Math_min_step_Finite)

text \<open>On the empty series the two fields are the infinities, not an error.\<close>

lemma Math_max_min_empty: "Math_max [] = NegInfinity \<and> Math_min [] = PosInfinity"
  by (simp add: Math_max_def Math_min_def)

text \<open>The successful path of \<open>fetch-weather\<close>, in both directions.\<close>

lemma fetchWeather_success:
  assumes "geocoding_api w (city inp) = Inr g"
    and "results g = Some (c # cs)"
    and "forecast_api w (latitude c) (longitude c) = Inr d"
  shows "fetchWeather w (Some inp) tr =
     (Inr (build_forecast w inp d),
      tr @ [GeocodingFetch (city inp), ForecastFetch (latitude c) (longitude c)])"
  using assms by (simp add: fetchWeather_def first_result_def)

lemma fetchWeather_InrD:
  assumes "fetchWeather w inputData tr = (Inr fc, tr')"
  shows "\<exists>inp g c cs d. inputData = Some inp \<and> geocoding_api w (city inp) = Inr g \<and>
           results g = Some (c # cs) \<and> forecast_api w (latitude c) (longitude c) = Inr d \<and>
           fc = build_forecast w inp d"
  using assms
  by (auto simp: fetchWeather_def first_result_def split: option.splits sum.splits list.splits)

lemma fetchWeather_not_found:
  assumes "geocoding_api w (city inp) = Inr g"
    and "results g = None \<or> results g = Some []"
  shows "fetchWeather w (Some inp) tr =
     (Inl (location_not_found (city inp)), tr @ [GeocodingFetch (city inp)])"
  using assms by (auto simp: fetchWeather_def first_result_def)

lemma accumulate_concat:
  "accumulate chunks acc tr = (acc @ concat chunks, tr @ map StdoutWrite chunks)"
  by (induction chunks arbitrary: acc tr) simp_all

lemma sample_world_simps:
  "geocoding_api (sample_world found d) c = Inr \<lparr> results = found \<rparr>"
  "forecast_api (sample_world found d) lat lon = Inr d"
  "clock (sample_world found d) = ''2025-06-01T12:00:00.000Z''"
  "agent_stream (sample_world found d) p = Inr ([''Hel'', ''lo, '', ''world''], None)"
  "webSearchAgent_generate (sample_world found d) p = Inr ''findings''"
  "webSearchAgent_stream (sample_world found d) p = Inr ([''A '', ''day '', ''plan''], None)"
  by (simp_all add: sample_world_def)

lemma sample_weather_simps:
  "precipitation_probability (hourly (sample_weather t P T)) = P"
  "temperature_2m (hourly (sample_weather t P T)) = T"
  "time (current (sample_weather t P T)) = t"
  by (simp_all add: sample_weather_def)

section \<open>The weather-code mapping\<close>

text \<open>
  C3. The weather-code mapping is defined on every integer: each of the sixteen codes of
  the table yields its label (0 yields "Clear sky", 61 yields "Slight rain"), and every
  other integer yields "Unknown"; the function has no failing branch.
\<close>

theorem getWeatherCondition_total:
  "map getWeatherCondition [0, 1, 2, 3, 45, 48, 51, 53, 55, 61, 63, 65, 71, 73, 75, 95] =
     [''Clear sky'', ''Mainly clear'', ''Partly cloudy'', ''Overcast'', ''Foggy'',
      ''Depositing rime fog'', ''Light drizzle'', ''Moderate drizzle'', ''Dense drizzle'',
      ''Slight rain'', ''Moderate rain'', ''Heavy rain'', ''Slight snow fall'',
      ''Moderate snow fall'', ''Heavy snow fall'', ''Thunderstorm''] \<and>
   (code \<notin> {0, 1, 2, 3, 45, 48, 51, 53, 55, 61, 63, 65, 71, 73, 75, 95} \<longrightarrow>
      getWeatherCondition code = ''Unknown'')"
  by (simp add: getWeatherCondition_def conditions_def)

theorem getWeatherCondition_total_witness:
  "(4::int) \<notin> {0, 1, 2, 3, 45, 48, 51, 53, 55, 61, 63, 65, 71, 73, 75, 95} \<and>
   getWeatherCondition 4 = ''Unknown'' \<and>
   getWeatherCondition (- 1) = ''Unknown'' \<and>
   getWeatherCondition 0 = ''Clear sky'' \<and>
   getWeatherCondition 61 = ''Slight rain''"
  using getWeatherCondition_total [of 4] getWeatherCondition_total [of "- 1"] by simp

section \<open>Step \<open>fetch-weather\<close>: the summary fields\<close>

text \<open>
  C1 (as amended). For every hourly precipitation-probability series that contains at least
  one reading that is not negative, the computed \<open>precipitationChance\<close> is the maximum of
  the readings, not an average; for the series 10, 90, 30 it is 90.
\<close>

theorem precipitationChance_max_of_series:
  assumes "geocoding_api w (city inp) = Inr g"
    and "results g = Some (c # cs)"
    and "forecast_api w (latitude c) (longitude c) = Inr d"
    and "P = precipitation_probability (hourly d)"
    and "\<exists>p \<in> set P. 0 \<le> p"
  shows "\<exists>fc tr'. fetchWeather w (Some inp) tr = (Inr fc, tr') \<and>
           precipitationChance fc = Finite (Max (set P)) \<and>
           (P = [10, 90, 30] \<longrightarrow> precipitationChance fc = Finite 90)"
proof -
  from assms(5) obtain p where p: "p \<in> set P" "0 \<le> p"
    by blast
  then have "0 \<le> Max (set P)"
    by (meson List.finite_set Max_ge order_trans)
  moreover from p have "set P \<noteq> {}"
    by auto
  ultimately have "Max (insert 0 (set P)) = Max (set P)"
    by (simp add: max_def)
  then have pc: "precipitationChance (build_forecast w inp d) = Finite (Max (set P))"
    by (simp add: build_forecast_def foldl_max_Max assms(4))
  have "P = [10, 90, 30] \<Longrightarrow> Max (set P) = 90"
    by simp
  with pc fetchWeather_success [OF assms(1-3)] show ?thesis
    by auto
qed

text \<open>The series 10, 90, 30 of the spec: the result is 90 (the average would be 43.3).\<close>

theorem precipitationChance_max_of_series_witness:
  "\<exists>fc tr'. fetchWeather (sample_world (Some [paris]) (sample_weather ''t'' [10, 90, 30] [20]))
              (Some \<lparr> city = ''Paris'' \<rparr>) [] = (Inr fc, tr') \<and>
            precipitationChance fc = Finite 90"
  using precipitationChance_max_of_series
    [of "sample_world (Some [paris]) (sample_weather ''t'' [10, 90, 30] [20])"
        "\<lparr> city = ''Paris'' \<rparr>" "\<lparr> results = Some [paris] \<rparr>" paris "[]"
        "sample_weather ''t'' [10, 90, 30] [20]" "[10, 90, 30]" "[]"]
  by (simp add: sample_world_simps sample_weather_simps)

text \<open>
  C1 as stated fails on a series without a reading that is not negative: for the single
  reading -5 the maximum is -5, and the step computes 0.
\<close>

theorem precipitationChance_max_counterexample:
  "map_sum id precipitationChance
     (fst (fetchWeather (sample_world (Some [paris]) (sample_weather ''t'' [- 5] [20]))
             (Some \<lparr> city = ''Paris'' \<rparr>) [])) = Inr (Finite 0) \<and>
   Max (set [- 5 :: real]) = - 5 \<and>
   map_sum id precipitationChance
     (fst (fetchWeather (sample_world (Some [paris]) (sample_weather ''t'' [- 5] [20]))
             (Some \<lparr> city = ''Paris'' \<rparr>) [])) \<noteq> Inr (Finite (Max (set [- 5])))"
  by (simp add: fetchWeather_success [where g = "\<lparr> results = Some [paris] \<rparr>" and c = paris and cs = "[]"
        and d = "sample_weather ''t'' [- 5] [20]"] sample_world_simps sample_weather_simps
        build_forecast_def)

text \<open>
  C10. The fold that computes \<open>precipitationChance\<close> starts from 0, so the field is the
  maximum of 0 and the readings: 0 for the empty series (no error), the larger of 0 and the
  maximum reading otherwise, and never negative.
\<close>

theorem precipitationChance_seeded_with_zero:
  assumes "geocoding_api w (city inp) = Inr g"
    and "results g = Some (c # cs)"
    and "forecast_api w (latitude c) (longitude c) = Inr d"
    and "P = precipitation_probability (hourly d)"
  shows "\<exists>fc tr' r. fetchWeather w (Some inp) tr = (Inr fc, tr') \<and>
           precipitationChance fc = Finite r \<and>
           r = Max (insert 0 (set P)) \<and>
           (P = [] \<longrightarrow> r = 0) \<and>
           (P \<noteq> [] \<longrightarrow> r = max 0 (Max (set P))) \<and>
           0 \<le> r"
proof -
  let ?r = "Max (insert 0 (set P))"
  have "precipitationChance (build_forecast w inp d) = Finite ?r"
    by (simp add: build_forecast_def foldl_max_Max assms(4))
  moreover have "P = [] \<longrightarrow> ?r = 0"
    by simp
  moreover have "P \<noteq> [] \<longrightarrow> ?r = max 0 (Max (set P))"
    by simp
  moreover have "0 \<le> ?r"
    by simp
  ultimately show ?thesis
    using fetchWeather_success [OF assms(1-3)] by blast
qed

text \<open>The empty series gives 0, and a series of negative readings gives 0 as well.\<close>

theorem precipitationChance_seeded_with_zero_witness:
  "(\<exists>fc tr'. fetchWeather (sample_world (Some [paris]) (sample_weather ''t'' [] [20]))
              (Some \<lparr> city = ''Paris'' \<rparr>) [] = (Inr fc, tr') \<and>
            precipitationChance fc = Finite 0) \<and>
   (\<exists>fc tr'. fetchWeather (sample_world (Some [paris]) (sample_weather ''t'' [- 5, - 1] [20]))
              (Some \<lparr> city = ''Paris'' \<rparr>) [] = (Inr fc, tr') \<and>
            precipitationChance fc = Finite 0) \<and>
   (\<exists>fc tr'. fetchWeather (sample_world (Some [paris]) (sample_weather ''t'' [- 5, 40] [20]))
              (Some \<lparr> city = ''Paris'' \<rparr>) [] = (Inr fc, tr') \<and>
            precipitationChance fc = Finite 40)"
  using precipitationChance_seeded_with_zero
    [of "sample_world (Some [paris]) (sample_weather ''t'' [] [20])"
        "\<lparr> city = ''Paris'' \<rparr>" "\<lparr> results = Some [paris] \<rparr>" paris "[]"
        "sample_weather ''t'' [] [20]" "[]" "[]"]
    precipitationChance_seeded_with_zero
    [of "sample_world (Some [paris]) (sample_weather ''t'' [- 5, - 1] [20])"
        "\<lparr> city = ''Paris'' \<rparr>" "\<lparr> results = Some [paris] \<rparr>" paris "[]"
        "sample_weather ''t'' [- 5, - 1] [20]" "[- 5, - 1]" "[]"]
    precipitationChance_seeded_with_zero
    [of "sample_world (Some [paris]) (sample_weather ''t'' [- 5, 40] [20])"
        "\<lparr> city = ''Paris'' \<rparr>" "\<lparr> results = Some [paris] \<rparr>" paris "[]"
        "sample_weather ''t'' [- 5, 40] [20]" "[- 5, 40]" "[]"]
  by (simp add: sample_world_simps sample_weather_simps)

text \<open>
  C5. For every non-empty hourly temperature series, the computed \<open>maxTemp\<close> is the
  maximum and the computed \<open>minTemp\<close> the minimum of the readings.
\<close>

theorem maxTemp_minTemp_of_series:
  assumes "geocoding_api w (city inp) = Inr g"
    and "results g = Some (c # cs)"
    and "forecast_api w (latitude c) (longitude c) = Inr d"
    and "T = temperature_2m (hourly d)"
    and "T \<noteq> []"
  shows "\<exists>fc tr'. fetchWeather w (Some inp) tr = (Inr fc, tr') \<and>
           maxTemp fc = Finite (Max (set T)) \<and>
           minTemp fc = Finite (Min (set T))"
proof -
  have "maxTemp (build_forecast w inp d) = Finite (Max (set T))"
    using assms(4,5) by (simp add: build_forecast_def Math_max_nonempty)
  moreover have "minTemp (build_forecast w inp d) = Finite (Min (set T))"
    using assms(4,5) by (simp add: build_forecast_def Math_min_nonempty)
  ultimately show ?thesis
    using fetchWeather_success [OF assms(1-3)] by blast
qed

theorem maxTemp_minTemp_of_series_witness:
  "\<exists>fc tr'. fetchWeather (sample_world (Some [paris]) (sample_weather ''t'' [10] [12, 25, - 3, 18]))
              (Some \<lparr> city = ''Paris'' \<rparr>) [] = (Inr fc, tr') \<and>
            maxTemp fc = Finite 25 \<and> minTemp fc = Finite (- 3)"
  using maxTemp_minTemp_of_series
    [of "sample_world (Some [paris]) (sample_weather ''t'' [10] [12, 25, - 3, 18])"
        "\<lparr> city = ''Paris'' \<rparr>" "\<lparr> results = Some [paris] \<rparr>" paris "[]"
        "sample_weather ''t'' [10] [12, 25, - 3, 18]" "[12, 25, - 3, 18]" "[]"]
  by (simp add: sample_world_simps sample_weather_simps)

section \<open>Step \<open>fetch-weather\<close>: date and location\<close>

text \<open>
  C7. The \<open>date\<close> field of the forecast is the clock reading of the run and depends on
  nothing in the provider's response: two successful runs with the same clock reading
  produce the same \<open>date\<close>, whatever the two responses (and their \<open>time\<close> fields) are.
\<close>

theorem date_independent_of_provider:
  assumes "fetchWeather w1 in1 tr1 = (Inr fc1, tr1')"
    and "fetchWeather w2 in2 tr2 = (Inr fc2, tr2')"
    and "clock w1 = clock w2"
  shows "date fc1 = date fc2 \<and> date fc1 = clock w1"
proof -
  from fetchWeather_InrD [OF assms(1)] have "date fc1 = clock w1"
    by (auto simp: build_forecast_def)
  moreover from fetchWeather_InrD [OF assms(2)] have "date fc2 = clock w2"
    by (auto simp: build_forecast_def)
  ultimately show ?thesis
    using assms(3) by simp
qed

text \<open>Two runs whose provider responses differ in the time field and in both series.\<close>

theorem date_independent_of_provider_witness:
  "\<exists>fc1 fc2 tr1 tr2.
     fetchWeather (sample_world (Some [paris]) (sample_weather ''2025-06-01T14:00'' [10] [20]))
       (Some \<lparr> city = ''Paris'' \<rparr>) [] = (Inr fc1, tr1) \<and>
     fetchWeather (sample_world (Some [paris]) (sample_weather ''1999-12-31T23:00'' [80, 5] [- 3, 4]))
       (Some \<lparr> city = ''Paris'' \<rparr>) [] = (Inr fc2, tr2) \<and>
     time (current (sample_weather ''2025-06-01T14:00'' [10] [20])) \<noteq>
       time (current (sample_weather ''1999-12-31T23:00'' [80, 5] [- 3, 4])) \<and>
     date fc1 = date fc2 \<and> date fc1 = ''2025-06-01T12:00:00.000Z''"
proof -
  let ?w1 = "sample_world (Some [paris]) (sample_weather ''2025-06-01T14:00'' [10] [20])"
  let ?w2 = "sample_world (Some [paris]) (sample_weather ''1999-12-31T23:00'' [80, 5] [- 3, 4])"
  let ?i = "\<lparr> city = ''Paris'' \<rparr>"
  obtain fc1 tr1 where r1: "fetchWeather ?w1 (Some ?i) [] = (Inr fc1, tr1)"
    using fetchWeather_success [of ?w1 ?i "\<lparr> results = Some [paris] \<rparr>" paris "[]"]
    by (simp add: sample_world_simps)
  obtain fc2 tr2 where r2: "fetchWeather ?w2 (Some ?i) [] = (Inr fc2, tr2)"
    using fetchWeather_success [of ?w2 ?i "\<lparr> results = Some [paris] \<rparr>" paris "[]"]
    by (simp add: sample_world_simps)
  have "clock ?w1 = clock ?w2"
    by (simp add: sample_world_simps)
  from date_independent_of_provider [OF r1 r2 this]
  have "date fc1 = date fc2 \<and> date fc1 = ''2025-06-01T12:00:00.000Z''"
    by (auto simp: sample_world_simps)
  with r1 r2 show ?thesis
    by (auto simp: sample_weather_simps)
qed

text \<open>
  C9. In every successful run of the step, the \<open>location\<close> field of the forecast is the
  city string supplied by the caller, verbatim, and not the canonical name of the first
  geocoding candidate.
\<close>

theorem location_is_input_city:
  assumes "fetchWeather w (Some inp) tr = (Inr fc, tr')"
  shows "location fc = city inp"
  using fetchWeather_InrD [OF assms] by (auto simp: build_forecast_def)

text \<open>The caller writes "paris"; the candidate's canonical name is "Paris".\<close>

theorem location_is_input_city_witness:
  "\<exists>fc tr'. fetchWeather (sample_world (Some [paris]) (sample_weather ''t'' [10] [20]))
              (Some \<lparr> city = ''paris'' \<rparr>) [] = (Inr fc, tr') \<and>
            location fc = ''paris'' \<and> name paris = ''Paris'' \<and> location fc \<noteq> name paris"
proof -
  let ?w = "sample_world (Some [paris]) (sample_weather ''t'' [10] [20])"
  obtain fc tr' where r: "fetchWeather ?w (Some \<lparr> city = ''paris'' \<rparr>) [] = (Inr fc, tr')"
    using fetchWeather_success [of ?w "\<lparr> city = ''paris'' \<rparr>" "\<lparr> results = Some [paris] \<rparr>" paris "[]"]
    by (simp add: sample_world_simps)
  from location_is_input_city [OF r] have "location fc = ''paris''"
    by simp
  with r show ?thesis
    by (simp add: paris_def)
qed

section \<open>The weather workflow without a geocoding candidate\<close>

text \<open>
  C4. In every run of the weather workflow in which the geocoding lookup returns no
  candidate (\<open>results\<close> missing or empty), the step \<open>fetch-weather\<close> throws the
  not-found error after the geocoding request, the run fails with that error, the step
  \<open>plan-activities\<close> is not invoked, and the run makes no text-generation call: its whole
  trace is the invocation of the first step and the geocoding request.
\<close>

theorem no_candidate_aborts_run:
  assumes "geocoding_api w (city inp) = Inr g"
    and "results g = None \<or> results g = Some []"
  shows "fetchWeather w (Some inp) tr =
           (Inl (location_not_found (city inp)), tr @ [GeocodingFetch (city inp)]) \<and>
         (\<exists>tr'. weatherWorkflow w inp tr = (Inl (location_not_found (city inp)), tr @ tr') \<and>
                tr' = [StepInvoked ''fetch-weather'', GeocodingFetch (city inp)] \<and>
                StepInvoked ''plan-activities'' \<notin> set tr' \<and>
                filter generation_call tr' = [])"
  using fetchWeather_not_found [OF assms]
  by (simp add: weatherWorkflow_def then_step_def run_step_def)

theorem no_candidate_aborts_run_witness:
  "weatherWorkflow (sample_world None (sample_weather ''t'' [10] [20])) \<lparr> city = ''Atlantis'' \<rparr> [] =
     (Inl (Error ''Location 'Atlantis' not found''),
      [StepInvoked ''fetch-weather'', GeocodingFetch ''Atlantis'']) \<and>
   weatherWorkflow (sample_world (Some []) (sample_weather ''t'' [10] [20])) \<lparr> city = ''Atlantis'' \<rparr> [] =
     (Inl (Error ''Location 'Atlantis' not found''),
      [StepInvoked ''fetch-weather'', GeocodingFetch ''Atlantis''])"
  using no_candidate_aborts_run
      [of "sample_world None (sample_weather ''t'' [10] [20])" "\<lparr> city = ''Atlantis'' \<rparr>"
          "\<lparr> results = None \<rparr>" "[]"]
    no_candidate_aborts_run
      [of "sample_world (Some []) (sample_weather ''t'' [10] [20])" "\<lparr> city = ''Atlantis'' \<rparr>"
          "\<lparr> results = Some [] \<rparr>" "[]"]
  by (simp add: sample_world_simps location_not_found_def)

section \<open>Streaming accumulation\<close>

text \<open>
  C6. For every finite sequence of text fragments delivered by a streaming generation call,
  in the step \<open>plan-activities\<close> as in the step \<open>plan-web-search-activities\<close>, the
  accumulated \<open>activities\<close> string is the concatenation of the fragments in arrival order,
  a left fold by string append from the empty string. The fragments "Hel", "lo, ", "world"
  give exactly "Hello, world", and the same fragments in another order give another string.
\<close>

theorem streamed_text_is_concatenation:
  "(agent_stream w (weather_prompt w fc) = Inr (chunks, None) \<longrightarrow>
      fst (planActivities w (Some fc) tr) = Inr \<lparr> activities = concat chunks \<rparr>) \<and>
   (webSearchAgent_stream w (web_search_prompt inp) = Inr (chunks, None) \<longrightarrow>
      fst (planWebSearchActivities w (Some inp) tr) = Inr \<lparr> activities = concat chunks \<rparr>) \<and>
   fst (accumulate chunks [] tr) = concat chunks \<and>
   fst (accumulate chunks [] tr) = foldl (@) [] chunks \<and>
   fst (accumulate [''Hel'', ''lo, '', ''world''] [] tr) = ''Hello, world'' \<and>
   fst (accumulate [''world'', ''lo, '', ''Hel''] [] tr) \<noteq> ''Hello, world''"
proof -
  have "foldl (@) acc chunks = acc @ concat chunks" for acc :: string
    by (induction chunks arbitrary: acc) simp_all
  then have "foldl (@) [] chunks = concat chunks"
    by simp
  then show ?thesis
    by (simp add: planActivities_def planWebSearchActivities_def read_textStream_def
        accumulate_concat)
qed

text \<open>
  Both steps on the sample world: the weather agent delivers "Hel", "lo, ", "world", the
  web-search agent delivers "A ", "day ", "plan".
\<close>

theorem streamed_text_is_concatenation_witness:
  "agent_stream (sample_world (Some [paris]) (sample_weather ''t'' [10] [20]))
     (weather_prompt (sample_world (Some [paris]) (sample_weather ''t'' [10] [20]))
        sample_forecast) =
       Inr ([''Hel'', ''lo, '', ''world''], None) \<and>
   fst (planActivities (sample_world (Some [paris]) (sample_weather ''t'' [10] [20]))
          (Some sample_forecast) []) =
     Inr \<lparr> activities = ''Hello, world'' \<rparr> \<and>
   webSearchAgent_stream (sample_world (Some [paris]) (sample_weather ''t'' [10] [20]))
     (web_search_prompt \<lparr> query = ''Lisbon'', focus = None, searchResults = ''findings'' \<rparr>) =
       Inr ([''A '', ''day '', ''plan''], None) \<and>
   fst (planWebSearchActivities (sample_world (Some [paris]) (sample_weather ''t'' [10] [20]))
          (Some \<lparr> query = ''Lisbon'', focus = None, searchResults = ''findings'' \<rparr>) []) =
     Inr \<lparr> activities = ''A day plan'' \<rparr>"
  using streamed_text_is_concatenation
    [where w = "sample_world (Some [paris]) (sample_weather ''t'' [10] [20])"
       and fc = sample_forecast and chunks = "[''Hel'', ''lo, '', ''world'']"
       and inp = "\<lparr> query = ''Lisbon'', focus = None, searchResults = ''findings'' \<rparr>"
       and tr = "[]"]
    streamed_text_is_concatenation
    [where w = "sample_world (Some [paris]) (sample_weather ''t'' [10] [20])"
       and fc = sample_forecast and chunks = "[''A '', ''day '', ''plan'']"
       and inp = "\<lparr> query = ''Lisbon'', focus = None, searchResults = ''findings'' \<rparr>"
       and tr = "[]"]
  by (simp add: sample_world_simps)

section \<open>Step \<open>web-search-info\<close>\<close>

text \<open>
  C2 (as amended). For every query \<open>q\<close> and focus \<open>f\<close>, the search phrase of the step is
  \<open>q\<close>, a space, \<open>f\<close> and " current information activities attractions events" when a
  focus is supplied and is not the empty string; when the focus is absent or empty, the
  phrase is \<open>q\<close> followed by " current activities attractions events what to do". That
  phrase is the one logged and sent to the agent.
\<close>

theorem searchQuery_templates:
  "(focus inp = Some f \<and> f \<noteq> [] \<longrightarrow>
      searchQuery inp =
        query inp @ '' '' @ f @ '' current information activities attractions events'') \<and>
   (focus inp = None \<or> focus inp = Some [] \<longrightarrow>
      searchQuery inp = query inp @ '' current activities attractions events what to do'') \<and>
   snd (webSearchInfo w (Some inp) tr) =
     tr @ [ConsoleLog (searching_message (searchQuery inp)),
           WebSearchGenerate (search_content (searchQuery inp))]"
  by (auto simp: searchQuery_def webSearchInfo_def split: sum.splits)

theorem searchQuery_templates_witness:
  "searchQuery \<lparr> query = ''Lisbon'', focus = Some ''food'' \<rparr> =
     ''Lisbon food current information activities attractions events'' \<and>
   searchQuery \<lparr> query = ''Lisbon'', focus = None \<rparr> =
     ''Lisbon current activities attractions events what to do'' \<and>
   searchQuery \<lparr> query = ''Lisbon'', focus = Some [] \<rparr> =
     ''Lisbon current activities attractions events what to do''"
  using searchQuery_templates [of "\<lparr> query = ''Lisbon'', focus = Some ''food'' \<rparr>" "''food''"]
    searchQuery_templates [of "\<lparr> query = ''Lisbon'', focus = None \<rparr>"]
    searchQuery_templates [of "\<lparr> query = ''Lisbon'', focus = Some [] \<rparr>"]
  by simp

text \<open>
  C2 as stated fails without a focus: the phrase is then built from other fixed terms and
  does not end with "current information activities attractions events".
\<close>

theorem searchQuery_boilerplate_counterexample:
  "searchQuery \<lparr> query = ''Lisbon'', focus = None \<rparr> =
     ''Lisbon current activities attractions events what to do'' \<and>
   searchQuery \<lparr> query = ''Lisbon'', focus = None \<rparr> \<noteq>
     ''Lisbon current information activities attractions events'' \<and>
   \<not> suffix ''current information activities attractions events''
        (searchQuery \<lparr> query = ''Lisbon'', focus = None \<rparr>)"
  by (simp add: searchQuery_def suffix_to_prefix)

text \<open>
  C8. For every input of the step, a successful run returns the input's \<open>query\<close> and
  \<open>focus\<close> unchanged; the only new field, \<open>searchResults\<close>, is the text returned by the
  generation call.
\<close>

theorem webSearchInfo_keeps_query_and_focus:
  assumes "webSearchInfo w (Some inp) tr = (Inr out, tr')"
  shows "query out = query inp \<and> focus out = focus inp \<and>
         webSearchAgent_generate w (search_content (searchQuery inp)) = Inr (searchResults out)"
  using assms by (auto simp: webSearchInfo_def split: sum.splits)

theorem webSearchInfo_keeps_query_and_focus_witness:
  "\<exists>out tr'. webSearchInfo (sample_world None (sample_weather ''t'' [] []))
               (Some \<lparr> query = ''Lisbon'', focus = Some ''food'' \<rparr>) [] = (Inr out, tr') \<and>
             query out = ''Lisbon'' \<and> focus out = Some ''food'' \<and> searchResults out = ''findings''"
proof -
  let ?w = "sample_world None (sample_weather ''t'' [] [])"
  let ?i = "\<lparr> query = ''Lisbon'', focus = Some ''food'' \<rparr>"
  obtain out tr' where r: "webSearchInfo ?w (Some ?i) [] = (Inr out, tr')"
    by (simp add: webSearchInfo_def sample_world_simps)
  from webSearchInfo_keeps_query_and_focus [OF r]
  have "query out = ''Lisbon'' \<and> focus out = Some ''food'' \<and> searchResults out = ''findings''"
    by (auto simp: sample_world_simps)
  with r show ?thesis
    by blast
qed

end
